theory Spec2Isabelle
  imports Complex_Main
begin

text \<open>
  The application tracker and the analytics of the job-search backend: the handlers
  \<open>updateApplicationStatus\<close>, \<open>createApplication\<close> and \<open>deleteApplication\<close> of the tracker
  controller, the handler \<open>getAnalytics\<close> of the analytics controller, and the Application and
  Job schemas they work on. The database is a value that the handlers take and return.
\<close>

section \<open>Data model\<close>

text \<open>
  Documents of the two collections the tracker and the analytics read. An \<open>ObjectId\<close> is
  compared through its string form (\<open>application.user.toString() !== userId\<close>), so it is a
  string here. A \<open>Date\<close> is its time value, the number of milliseconds since the epoch (an
  integer of magnitude at most \<open>8.64 * 10^15\<close>, which is below \<open>2^53\<close>).
  Fields of the schemas with no \<open>required\<close> and no \<open>default\<close> may be absent: they are options.
\<close>

type_synonym objectId = string
type_synonym date = int

record application =
  app_id :: objectId
  job :: objectId
  user :: objectId
  status :: string
  appliedDate :: "date option"
  responseDate :: "date option"
  salary :: "rat option"
  app_notes :: "string option"
  createdAt :: date
  updatedAt :: date
  interviewDate :: "date option"
  interviewTime :: "string option"
  interviewType :: "string option"
  interviewLocation :: "string option"

record jobPosting =
  job_id :: objectId
  title :: string
  company :: string
  location :: string
  job_salary :: string
  job_type :: string
  experience :: string
  description :: string
  skills :: "string list"
  postedBy :: objectId
  job_createdAt :: date
  logo :: string
  isSaved :: "objectId list"

text \<open>
  The store holds the documents of each collection in their natural order, which is the order
  \<open>find\<close> returns them in.
\<close>

record store =
  applicationDocs :: "application list"
  jobDocs :: "jobPosting list"

text \<open>
  \<open>ErrorResponse message statusCode\<close> is the error the controllers hand to \<open>next\<close>;
  \<open>ValidationError path\<close> is the error Mongoose throws when a schema validator rejects a
  document (the handler that turns it into a response is not part of the controllers).
\<close>

datatype error = ErrorResponse string nat | ValidationError string

section \<open>Mongoose operations used by the tracker\<close>

definition validStatuses :: "string list" where
  "validStatuses = [''saved'', ''applied'', ''interviewing'', ''offer'', ''rejected'']"

definition findById :: "store \<Rightarrow> objectId \<Rightarrow> application option" where
  "findById s i = find (\<lambda>a. app_id a = i) (applicationDocs s)"

definition findJobById :: "store \<Rightarrow> objectId \<Rightarrow> jobPosting option" where
  "findJobById s i = find (\<lambda>j. job_id j = i) (jobDocs s)"

text \<open>\<open>populate('job', ...)\<close>: the referenced job document, or null when none has that id.\<close>

definition populate :: "store \<Rightarrow> application \<Rightarrow> application \<times> jobPosting option" where
  "populate s a = (a, findJobById s (job a))"

text \<open>
  An update document is a JavaScript object: property names with values, in insertion order.
  \<open>setPath\<close> is what \<open>$set\<close> does to one path of the Application schema; a name that is
  not a path of the schema, or a value of the wrong type, changes nothing.
\<close>

datatype val = VString string | VDate date

type_synonym updateDoc = "(string \<times> val) list"

fun setPath :: "string \<times> val \<Rightarrow> application \<Rightarrow> application" where
  "setPath (k, VString v) a =
     (if k = ''status'' then a\<lparr>status := v\<rparr>
      else if k = ''notes'' then a\<lparr>app_notes := Some v\<rparr>
      else if k = ''interviewTime'' then a\<lparr>interviewTime := Some v\<rparr>
      else if k = ''interviewType'' then a\<lparr>interviewType := Some v\<rparr>
      else if k = ''interviewLocation'' then a\<lparr>interviewLocation := Some v\<rparr>
      else if k = ''job'' then a\<lparr>job := v\<rparr>
      else if k = ''user'' then a\<lparr>user := v\<rparr>
      else a)"
| "setPath (k, VDate v) a =
     (if k = ''updatedAt'' then a\<lparr>updatedAt := v\<rparr>
      else if k = ''appliedDate'' then a\<lparr>appliedDate := Some v\<rparr>
      else if k = ''responseDate'' then a\<lparr>responseDate := Some v\<rparr>
      else if k = ''createdAt'' then a\<lparr>createdAt := v\<rparr>
      else if k = ''interviewDate'' then a\<lparr>interviewDate := Some v\<rparr>
      else a)"

definition applyUpdate :: "updateDoc \<Rightarrow> application \<Rightarrow> application" where
  "applyUpdate u a = foldl (\<lambda>acc kv. setPath kv acc) a u"

text \<open>
  \<open>runValidators: true\<close>: the validators of the paths the update sets. The only validator
  on a path the tracker writes is the enum of \<open>status\<close>.
\<close>

fun validatePath :: "string \<times> val \<Rightarrow> bool" where
  "validatePath (k, VString v) = (k = ''status'' \<longrightarrow> v \<in> set validStatuses)"
| "validatePath (k, VDate v) = True"

fun updateFirst :: "objectId \<Rightarrow> updateDoc \<Rightarrow> application list \<Rightarrow> application list" where
  "updateFirst i u [] = []"
| "updateFirst i u (a # as) =
     (if app_id a = i then applyUpdate u a # as else a # updateFirst i u as)"

text \<open>
  \<open>findByIdAndUpdate(id, update, {new: true, runValidators: true})\<close>: the store after the
  update and the updated document (null when no document has the id).
\<close>

definition findByIdAndUpdate ::
  "store \<Rightarrow> objectId \<Rightarrow> updateDoc \<Rightarrow> error + (store \<times> application option)" where
  "findByIdAndUpdate s i u =
     (if \<not> list_all validatePath u then Inl (ValidationError ''status'')
      else let s' = s\<lparr>applicationDocs := updateFirst i u (applicationDocs s)\<rparr>
           in Inr (s', findById s' i))"

fun removeFirst :: "objectId \<Rightarrow> application list \<Rightarrow> application list" where
  "removeFirst i [] = []"
| "removeFirst i (a # as) = (if app_id a = i then as else a # removeFirst i as)"

section \<open>The tracker controller\<close>

text \<open>
  Every handler takes the store and returns its response together with the store it leaves.
  \<open>now\<close> is the value of \<open>Date.now()\<close> during the request: the source reads the clock once
  for each field it stamps, and the reads of one request are taken as one instant.
\<close>

text \<open>The update document \<open>updateApplicationStatus\<close> builds from the loaded application.\<close>

definition updateData :: "application \<Rightarrow> string \<Rightarrow> date \<Rightarrow> updateDoc" where
  "updateData application st now =
     [(''status'', VString st), (''updatedAt'', VDate now)]
     @ (if st = ''applied'' \<and> status application \<noteq> ''applied''
        then [(''appliedDate'', VDate now)] else [])
     @ (if (st = ''offer'' \<or> st = ''rejected'')
           \<and> status application \<noteq> ''offer'' \<and> status application \<noteq> ''rejected''
        then [(''responseDate'', VDate now)] else [])"

definition updateApplicationStatus ::
  "store \<Rightarrow> objectId \<Rightarrow> objectId \<Rightarrow> string \<Rightarrow> date
     \<Rightarrow> (error + (application \<times> jobPosting option) option) \<times> store" where
  "updateApplicationStatus s userId i st now =
     (if st \<notin> set validStatuses then (Inl (ErrorResponse ''Invalid status'' 400), s)
      else case findById s i of
        None \<Rightarrow> (Inl (ErrorResponse ''Application not found'' 404), s)
      | Some application \<Rightarrow>
          if user application \<noteq> userId
          then (Inl (ErrorResponse ''Not authorized to update this application'' 403), s)
          else (case findByIdAndUpdate s i (updateData application st now) of
                  Inl e \<Rightarrow> (Inl e, s)
                | Inr (s', updated) \<Rightarrow> (Inr (map_option (populate s') updated), s')))"

text \<open>\<open>Application.findOne({user, job})\<close>.\<close>

definition findOne :: "store \<Rightarrow> objectId \<Rightarrow> objectId \<Rightarrow> application option" where
  "findOne s userId jobId = find (\<lambda>a. user a = userId \<and> job a = jobId) (applicationDocs s)"

text \<open>
  \<open>Application.create({user, job, status})\<close>: the schema defaults fill \<open>createdAt\<close> and
  \<open>updatedAt\<close>, every other path stays unset, and the enum validator of \<open>status\<close> runs before
  the document is saved.
\<close>

definition create ::
  "store \<Rightarrow> objectId \<Rightarrow> objectId \<Rightarrow> objectId \<Rightarrow> string \<Rightarrow> date \<Rightarrow> error + (store \<times> application)" where
  "create s newId userId jobId st now =
     (if st \<notin> set validStatuses then Inl (ValidationError ''status'')
      else let a = \<lparr>app_id = newId, job = jobId, user = userId, status = st,
                    appliedDate = None, responseDate = None, salary = None, app_notes = None,
                    createdAt = now, updatedAt = now, interviewDate = None,
                    interviewTime = None, interviewType = None, interviewLocation = None\<rparr>
           in Inr (s\<lparr>applicationDocs := applicationDocs s @ [a]\<rparr>, a))"

text \<open>
  The request body of \<open>createApplication\<close>: \<open>jobId\<close> and \<open>status\<close> may be missing. The
  handler tests \<open>!jobId\<close>, which also holds for the empty string, and destructures
  \<open>status = 'saved'\<close>, a default that applies when the body has no status. \<open>newId\<close> is the id
  the database gives the new document.
\<close>

definition statusOrDefault :: "string option \<Rightarrow> string" where
  "statusOrDefault bodyStatus = (case bodyStatus of None \<Rightarrow> ''saved'' | Some x \<Rightarrow> x)"

definition createApplication ::
  "store \<Rightarrow> objectId \<Rightarrow> objectId \<Rightarrow> objectId option \<Rightarrow> string option \<Rightarrow> date
     \<Rightarrow> (error + (application \<times> jobPosting option)) \<times> store" where
  "createApplication s newId userId bodyJobId bodyStatus now =
     (let st = statusOrDefault bodyStatus in
      case bodyJobId of
        None \<Rightarrow> (Inl (ErrorResponse ''Please provide a job ID'' 400), s)
      | Some jobId \<Rightarrow>
          if jobId = [] then (Inl (ErrorResponse ''Please provide a job ID'' 400), s)
          else (case findJobById s jobId of
                  None \<Rightarrow> (Inl (ErrorResponse ''Job not found'' 404), s)
                | Some j \<Rightarrow>
                    (case findOne s userId jobId of
                       Some existingApplication \<Rightarrow>
                         (Inl (ErrorResponse ''Application for this job already exists'' 400), s)
                     | None \<Rightarrow>
                         (case create s newId userId jobId st now of
                            Inl e \<Rightarrow> (Inl e, s)
                          | Inr (s', a) \<Rightarrow> (Inr (populate s' a), s')))))"

definition deleteApplication ::
  "store \<Rightarrow> objectId \<Rightarrow> objectId \<Rightarrow> (error + unit) \<times> store" where
  "deleteApplication s userId i =
     (case findById s i of
        None \<Rightarrow> (Inl (ErrorResponse ''Application not found'' 404), s)
      | Some application \<Rightarrow>
          if user application \<noteq> userId
          then (Inl (ErrorResponse ''Not authorized to delete this application'' 403), s)
          else (Inr (), s\<lparr>applicationDocs := removeFirst i (applicationDocs s)\<rparr>))"

text \<open>A sequence of status-change requests of one user on one application, in order.\<close>

fun updateAll :: "store \<Rightarrow> objectId \<Rightarrow> objectId \<Rightarrow> (string \<times> date) list \<Rightarrow> store" where
  "updateAll s userId i [] = s"
| "updateAll s userId i ((st, now) # rs) =
     updateAll (snd (updateApplicationStatus s userId i st now)) userId i rs"

section \<open>The analytics controller\<close>

text \<open>
  A JavaScript number is an IEEE 754 double; it is taken here as the rational it denotes.
  Counts and the time values of dates are integers below \<open>2^53\<close>, which are doubles. Every
  other arithmetic operation of the handler is the exact operation followed by \<open>double\<close>, the
  rounding to the nearest double. Strings are compared by character, and the characters
  tested here are ASCII.
\<close>

subsection \<open>Runtime functions\<close>

text \<open>
  Rounding to the nearest double, ties to the even significand. A positive \<open>x\<close> is brought
  into the range of the 53-bit significands, \<open>2^52 \<le> y < 2^53\<close>, by halving or doubling,
  with \<open>x = y * s\<close> for a power of two \<open>s\<close>; then \<open>y\<close> is rounded to an integer. The exponent
  is not bounded: \<open>double\<close> is the rounding of binary64 for results of magnitude between
  \<open>2^-1022\<close> and \<open>2^1024\<close>, and there is no infinity and no NaN.
\<close>

function scaleDown :: "rat \<Rightarrow> rat \<Rightarrow> rat \<times> rat" where
  "scaleDown x s = (if 2 ^ 53 \<le> x then scaleDown (x / 2) (s * 2) else (x, s))"
  by pat_completeness auto
termination
proof (relation "measure (\<lambda>(x, s). nat \<lfloor>x\<rfloor>)")
  show "wf (measure (\<lambda>(x, s). nat \<lfloor>x\<rfloor>))" by simp
next
  fix x s :: rat
  assume h: "2 ^ 53 \<le> x"
  have "(2::rat) \<le> 2 ^ 53" by simp
  with h have two: "2 \<le> x" by linarith
  then have "x / 2 \<le> x - 1" by simp
  then have "\<lfloor>x / 2\<rfloor> \<le> \<lfloor>x - 1\<rfloor>" by (rule floor_mono)
  then have "\<lfloor>x / 2\<rfloor> < \<lfloor>x\<rfloor>" by simp
  moreover have "0 < \<lfloor>x\<rfloor>" using two by simp
  ultimately show "((x / 2, s * 2), (x, s)) \<in> measure (\<lambda>(x, s). nat \<lfloor>x\<rfloor>)"
    by simp
qed

function scaleUp :: "rat \<Rightarrow> rat \<Rightarrow> rat \<times> rat" where
  "scaleUp x s = (if 0 < x \<and> x < 2 ^ 52 then scaleUp (x * 2) (s / 2) else (x, s))"
  by pat_completeness auto
termination
proof (relation "measure (\<lambda>(x, s). nat \<lceil>2 ^ 52 / x\<rceil>)")
  show "wf (measure (\<lambda>(x, s). nat \<lceil>2 ^ 52 / x\<rceil>))" by simp
next
  fix x s :: rat
  assume h: "0 < x \<and> x < 2 ^ 52"
  have half: "\<lceil>q / 2\<rceil> < \<lceil>q\<rceil>" if "1 < q" for q :: rat
  proof -
    from that have "1 < \<lceil>q\<rceil>" by (simp add: less_ceiling_iff)
    then have c2: "2 \<le> \<lceil>q\<rceil>" by simp
    have "q / 2 \<le> of_int \<lceil>q\<rceil> / 2" by simp
    also have "\<dots> \<le> of_int (\<lceil>q\<rceil> - 1)" using c2 by simp
    finally have "\<lceil>q / 2\<rceil> \<le> \<lceil>q\<rceil> - 1" by (simp only: ceiling_le_iff)
    then show ?thesis by simp
  qed
  have gen: "nat \<lceil>c / (x * 2)\<rceil> < nat \<lceil>c / x\<rceil>" if "x < c" for c :: rat
  proof -
    from h that have q1: "1 < c / x" by simp
    have "\<lceil>c / x / 2\<rceil> < \<lceil>c / x\<rceil>" by (rule half [OF q1])
    then have "\<lceil>c / (x * 2)\<rceil> < \<lceil>c / x\<rceil>" by (simp only: divide_divide_eq_left)
    moreover from q1 have "0 < \<lceil>c / x\<rceil>" by (simp only: less_ceiling_iff of_int_0)
    ultimately show ?thesis by linarith
  qed
  from h have "x < 2 ^ 52" by blast
  then have "nat \<lceil>2 ^ 52 / (x * 2)\<rceil> < nat \<lceil>2 ^ 52 / x\<rceil>" by (rule gen)
  then show "((x * 2, s / 2), (x, s)) \<in> measure (\<lambda>(x, s). nat \<lceil>2 ^ 52 / x\<rceil>)"
    by (simp only: in_measure split_conv)
qed

declare scaleDown.simps [simp del] scaleUp.simps [simp del]

definition normalise :: "rat \<Rightarrow> rat \<times> rat" where
  "normalise x = (case scaleDown x 1 of (y, s) \<Rightarrow> scaleUp y s)"

definition roundHalfEven :: "rat \<Rightarrow> int" where
  "roundHalfEven y =
     (let f = \<lfloor>y\<rfloor>; d = y - of_int f
      in if d < 1 / 2 then f else if 1 / 2 < d then f + 1 else if even f then f else f + 1)"

definition double :: "rat \<Rightarrow> rat" where
  "double x =
     (if x = 0 then 0
      else case normalise \<bar>x\<bar> of (y, s) \<Rightarrow> sgn x * of_int (roundHalfEven y) * s)"

text \<open>\<open>Math.round\<close> of a double: the nearest integer, a half rounding up.\<close>

definition Math_round :: "rat \<Rightarrow> int" where
  "Math_round x = \<lfloor>x + 1 / 2\<rfloor>"

text \<open>
  \<open>x.toFixed(1)\<close> of a double: the decimal with one fractional digit nearest to the value of
  \<open>x\<close>, a half rounding away from zero; the value of that decimal stands for the string.
\<close>

definition toFixed1 :: "rat \<Rightarrow> rat" where
  "toFixed1 x = (if x < 0 then - (of_int \<lfloor>(- x) * 10 + 1 / 2\<rfloor> / 10)
                 else of_int \<lfloor>x * 10 + 1 / 2\<rfloor> / 10)"

definition isDigit :: "char \<Rightarrow> bool" where
  "isDigit c = (c \<in> set ''0123456789'')"

text \<open>
  \<open>s.match(/\d+/g)\<close>: the maximal runs of digits of \<open>s\<close>, left to right; the empty list
  stands for \<open>null\<close>. \<open>cur\<close> is the run being read.
\<close>

fun digitRuns :: "string \<Rightarrow> string \<Rightarrow> string list" where
  "digitRuns cur [] = (if cur = [] then [] else [cur])"
| "digitRuns cur (c # cs) =
     (if isDigit c then digitRuns (cur @ [c]) cs
      else if cur = [] then digitRuns [] cs
      else cur # digitRuns [] cs)"

definition matchDigits :: "string \<Rightarrow> string list" where
  "matchDigits s = digitRuns [] s"

text \<open>
  \<open>parseInt\<close> of a run of digits: the double nearest to the integer the run writes,
  \<open>mathInt\<close>. (For a run of more than 20 digits an engine may round differently.)
\<close>

definition digitVal :: "char \<Rightarrow> nat" where
  "digitVal c = length (takeWhile (\<lambda>d. d \<noteq> c) ''0123456789'')"

definition mathInt :: "string \<Rightarrow> nat" where
  "mathInt ds = foldl (\<lambda>n c. 10 * n + digitVal c) 0 ds"

definition parseInt :: "string \<Rightarrow> rat" where
  "parseInt ds = double (of_nat (mathInt ds))"

text \<open>
  \<open>new Date(year, month, 1)\<close> and \<open>new Date(year, month + 1, 0)\<close> build a local time from a
  year, a month index that may lie outside \<open>0..11\<close> and a day of month that may be \<open>0\<close>; the
  day number is ECMAScript's \<open>MakeDay\<close>. \<open>utc\<close> is the runtime's conversion of a local time
  value to UTC (the identity on a server that runs in UTC).
\<close>

definition msPerDay :: int where
  "msPerDay = 1000 * 60 * 60 * 24"

definition DayFromYear :: "int \<Rightarrow> int" where
  "DayFromYear y = 365 * (y - 1970) + (y - 1969) div 4 - (y - 1901) div 100 + (y - 1601) div 400"

definition InLeapYear :: "int \<Rightarrow> bool" where
  "InLeapYear y = ((y mod 4 = 0 \<and> y mod 100 \<noteq> 0) \<or> y mod 400 = 0)"

definition monthStartDay :: "int \<Rightarrow> bool \<Rightarrow> int" where
  "monthStartDay mn leap =
     [0, 31, 59, 90, 120, 151, 181, 212, 243, 273, 304, 334] ! nat mn
     + (if leap \<and> 2 \<le> mn then 1 else 0)"

definition MakeDay :: "int \<Rightarrow> int \<Rightarrow> int \<Rightarrow> int" where
  "MakeDay year month dt =
     (let ym = year + month div 12; mn = month mod 12
      in DayFromYear ym + monthStartDay mn (InLeapYear ym) + dt - 1)"

definition newDate :: "(int \<Rightarrow> int) \<Rightarrow> int \<Rightarrow> int \<Rightarrow> int \<Rightarrow> date" where
  "newDate utc year month dt =
     utc (MakeDay (if 0 \<le> year \<and> year \<le> 99 then 1900 + year else year) month dt * msPerDay)"

text \<open>
  A plain object used as a dictionary is its own properties in insertion order. A property
  read falls back to \<open>Object.prototype\<close>, whose property names are listed here; each of them
  holds a function or an object, so it is truthy.
\<close>

definition objectPrototypeKeys :: "string list" where
  "objectPrototypeKeys =
     [''constructor'', ''__defineGetter__'', ''__defineSetter__'', ''hasOwnProperty'',
      ''__lookupGetter__'', ''__lookupSetter__'', ''isPrototypeOf'', ''propertyIsEnumerable'',
      ''toString'', ''valueOf'', ''__proto__'', ''toLocaleString'']"

text \<open>
  \<open>Object.entries\<close>: the own properties whose name is an array index (a canonical decimal
  below \<open>2^32 - 1\<close>) in ascending numeric order, then the others in insertion order.
\<close>

definition isArrayIndex :: "string \<Rightarrow> bool" where
  "isArrayIndex k = (k \<noteq> [] \<and> list_all isDigit k \<and> (k = ''0'' \<or> hd k \<noteq> CHR ''0'')
                     \<and> mathInt k < 2 ^ 32 - 1)"

definition Object_entries :: "(string \<times> 'a) list \<Rightarrow> (string \<times> 'a) list" where
  "Object_entries props =
     sort_key (\<lambda>kv. mathInt (fst kv)) (filter (\<lambda>kv. isArrayIndex (fst kv)) props)
     @ filter (\<lambda>kv. \<not> isArrayIndex (fst kv)) props"

subsection \<open>The queries\<close>

text \<open>
  \<open>startDate\<close> is the lower bound the handler computes from the \<open>range\<close> query parameter and
  the clock, through the runtime's calendar; it is an input here.
\<close>

definition findApplications ::
  "store \<Rightarrow> objectId \<Rightarrow> date \<Rightarrow> (application \<times> jobPosting option) list" where
  "findApplications s userId startDate =
     map (populate s)
       (filter (\<lambda>a. user a = userId \<and> startDate \<le> createdAt a) (applicationDocs s))"

definition findJobs :: "store \<Rightarrow> objectId \<Rightarrow> date \<Rightarrow> jobPosting list" where
  "findJobs s userId startDate =
     filter (\<lambda>j. postedBy j = userId \<and> startDate \<le> job_createdAt j) (jobDocs s)"

subsection \<open>Metrics\<close>

definition countStatus :: "string \<Rightarrow> (application \<times> jobPosting option) list \<Rightarrow> nat" where
  "countStatus st applications = length (filter (\<lambda>app. status (fst app) = st) applications)"

definition rate :: "nat \<Rightarrow> nat \<Rightarrow> int" where
  "rate part whole =
     (if whole > 0 then Math_round (double (double (of_nat part / of_nat whole) * 100)) else 0)"

text \<open>
  The response times, in days, of the applications with both dates set: the filter
  \<open>app.responseDate && app.appliedDate\<close> followed by the difference the reduction takes.
\<close>

definition responseTimes :: "(application \<times> jobPosting option) list \<Rightarrow> rat list" where
  "responseTimes applications =
     List.map_filter (\<lambda>app.
        case (responseDate (fst app), appliedDate (fst app)) of
          (Some r, Some d) \<Rightarrow> Some (double (double (of_int (r - d)) / of_int msPerDay))
        | _ \<Rightarrow> None) applications"

definition calculateAverageResponseTime :: "(application \<times> jobPosting option) list \<Rightarrow> rat" where
  "calculateAverageResponseTime applications =
     (let respondedApplications = responseTimes applications
      in if length respondedApplications > 0
         then toFixed1
                (double (foldl (\<lambda>acc responseTime. double (acc + responseTime)) 0
                           respondedApplications
                         / of_nat (length respondedApplications)))
         else 0)"

text \<open>The value one salary string yields: the body of the \<open>map\<close> over \<open>jobsWithSalary\<close>.\<close>

definition salaryNumber :: "string \<Rightarrow> rat" where
  "salaryNumber s =
     (case matchDigits s of
        n0 # n1 # rest \<Rightarrow> double (double (parseInt n0 + parseInt n1) / 2)
      | [n0] \<Rightarrow> parseInt n0
      | [] \<Rightarrow> 0)"

definition calculateAverageSalary :: "jobPosting list \<Rightarrow> int" where
  "calculateAverageSalary jobs =
     (let jobsWithSalary =
            filter (\<lambda>j. job_salary j \<noteq> [] \<and> CHR ''$'' \<in> set (job_salary j)) jobs
      in if length jobsWithSalary > 0
         then (let salaryNumbers =
                     filter (\<lambda>v. v > 0) (map (\<lambda>j. salaryNumber (job_salary j)) jobsWithSalary)
               in if length salaryNumbers > 0
                  then Math_round
                         (double (foldl (\<lambda>acc num. double (acc + num)) 0 salaryNumbers
                                  / of_nat (length salaryNumbers)))
                  else 0)
         else 0)"

subsection \<open>Monthly trend\<close>

text \<open>
  \<open>nowYear\<close> and \<open>nowMonth\<close> are \<open>now.getFullYear()\<close> and \<open>now.getMonth()\<close>. The label of an
  entry is the short name of the month in the source; here it is the month's index.
\<close>

record monthEntry =
  month :: int
  month_applications :: nat
  month_interviews :: nat
  month_offers :: nat

definition monthEntryOf ::
  "(int \<Rightarrow> int) \<Rightarrow> int \<Rightarrow> int \<Rightarrow> (application \<times> jobPosting option) list \<Rightarrow> int \<Rightarrow> monthEntry" where
  "monthEntryOf utc nowYear nowMonth applications i =
     (let monthDate = newDate utc nowYear (nowMonth - i) 1;
          monthEnd = newDate utc nowYear (nowMonth - i + 1) 0
      in \<lparr>month = (nowMonth - i) mod 12,
          month_applications = length (filter (\<lambda>app.
             createdAt (fst app) \<ge> monthDate \<and> createdAt (fst app) \<le> monthEnd) applications),
          month_interviews = length (filter (\<lambda>app.
             status (fst app) = ''interviewing'' \<and> updatedAt (fst app) \<ge> monthDate
               \<and> updatedAt (fst app) \<le> monthEnd) applications),
          month_offers = length (filter (\<lambda>app.
             status (fst app) = ''offer'' \<and> updatedAt (fst app) \<ge> monthDate
               \<and> updatedAt (fst app) \<le> monthEnd) applications)\<rparr>)"

definition calculateMonthlyData ::
  "(int \<Rightarrow> int) \<Rightarrow> int \<Rightarrow> int \<Rightarrow> (application \<times> jobPosting option) list \<Rightarrow> monthEntry list" where
  "calculateMonthlyData utc nowYear nowMonth applications =
     map (monthEntryOf utc nowYear nowMonth applications) [5, 4, 3, 2, 1, 0]"

subsection \<open>Top companies\<close>

record companyStat =
  stat_applications :: nat
  stat_interviews :: nat
  stat_offers :: nat

record topCompany =
  name :: string
  applications :: nat
  interviews :: nat
  offers :: nat
  successRate :: int

text \<open>
  One step of the \<open>forEach\<close> over the applications. When the company name is a property name
  of \<open>Object.prototype\<close>, the read \<open>companyStats[company]\<close> finds the inherited value, no own
  property is created and the increments land on the inherited object: \<open>companyStats\<close> keeps
  its own properties.
\<close>

definition countApplication :: "string \<Rightarrow> companyStat \<Rightarrow> companyStat" where
  "countApplication st c =
     c\<lparr>stat_applications := stat_applications c + 1,
       stat_interviews := (if st = ''interviewing'' then stat_interviews c + 1
                           else stat_interviews c),
       stat_offers := (if st = ''offer'' then stat_offers c + 1 else stat_offers c)\<rparr>"

definition addToCompanyStats ::
  "(string \<times> companyStat) list \<Rightarrow> application \<times> jobPosting option
     \<Rightarrow> (string \<times> companyStat) list" where
  "addToCompanyStats companyStats app =
     (case snd app of
        None \<Rightarrow> companyStats
      | Some j \<Rightarrow>
          if company j = [] then companyStats
          else if map_of companyStats (company j) = None \<and> company j \<in> set objectPrototypeKeys
          then companyStats
          else (let created =
                      (if map_of companyStats (company j) = None
                       then companyStats
                            @ [(company j, \<lparr>stat_applications = 0, stat_interviews = 0,
                                             stat_offers = 0\<rparr>)]
                       else companyStats)
                in map (\<lambda>kv. if fst kv = company j
                               then (fst kv, countApplication (status (fst app)) (snd kv))
                               else kv) created))"

definition toTopCompany :: "string \<times> companyStat \<Rightarrow> topCompany" where
  "toTopCompany kv =
     \<lparr>name = fst kv,
      applications = stat_applications (snd kv),
      interviews = stat_interviews (snd kv),
      offers = stat_offers (snd kv),
      successRate = (if stat_applications (snd kv) > 0
                     then Math_round
                            (double (double (of_nat (stat_offers (snd kv))
                                             / of_nat (stat_applications (snd kv))) * 100))
                     else 0)\<rparr>"

text \<open>
  \<open>.sort((a, b) => b.applications - a.applications)\<close> is a stable sort by descending
  application count; \<open>.slice(0, 5)\<close> keeps the first five.
\<close>

definition calculateTopCompanies :: "(application \<times> jobPosting option) list \<Rightarrow> topCompany list" where
  "calculateTopCompanies apps =
     take 5 (sort_key (\<lambda>c. - int (applications c))
               (map toTopCompany (Object_entries (foldl addToCompanyStats [] apps))))"

subsection \<open>The handler\<close>

record metrics =
  totalApplications :: nat
  interviewRate :: int
  offerRate :: int
  averageResponseTime :: rat
  averageSalary :: "int option"

record statusCounts =
  count_saved :: nat
  count_applied :: nat
  count_interviewing :: nat
  count_offer :: nat
  count_rejected :: nat

record analytics =
  metrics :: metrics
  statusDistribution :: statusCounts
  monthlyData :: "monthEntry list"
  topCompanies :: "topCompany list"

text \<open>
  The \<open>averageSalary\<close> of the response is \<open>'N/A'\<close> when the computed average is not positive:
  \<open>None\<close> here.
\<close>

definition getAnalytics ::
  "(int \<Rightarrow> int) \<Rightarrow> int \<Rightarrow> int \<Rightarrow> date \<Rightarrow> store \<Rightarrow> objectId \<Rightarrow> analytics" where
  "getAnalytics utc nowYear nowMonth startDate s userId =
     (let applications = findApplications s userId startDate;
          jobs = findJobs s userId startDate;
          totalApplications = length applications;
          interviewCount = countStatus ''interviewing'' applications;
          offerCount = countStatus ''offer'' applications;
          averageSalary = calculateAverageSalary jobs
      in \<lparr>metrics =
            \<lparr>totalApplications = totalApplications,
             interviewRate = rate interviewCount totalApplications,
             offerRate = rate offerCount totalApplications,
             averageResponseTime = calculateAverageResponseTime applications,
             averageSalary = (if averageSalary > 0 then Some averageSalary else None)\<rparr>,
          statusDistribution =
            \<lparr>count_saved = countStatus ''saved'' applications,
             count_applied = countStatus ''applied'' applications,
             count_interviewing = countStatus ''interviewing'' applications,
             count_offer = countStatus ''offer'' applications,
             count_rejected = countStatus ''rejected'' applications\<rparr>,
          monthlyData = calculateMonthlyData utc nowYear nowMonth applications,
          topCompanies = calculateTopCompanies applications\<rparr>)"

section \<open>Predicates used in the statements\<close>

text \<open>
  An application of user \<open>u\<close>, created at or after \<open>start\<close>, with both \<open>responseDate\<close> and
  \<open>appliedDate\<close> set.
\<close>

definition bothDates :: "objectId \<Rightarrow> date \<Rightarrow> application \<Rightarrow> bool" where
  "bothDates u start a =
     (user a = u \<and> start \<le> createdAt a \<and> responseDate a \<noteq> None \<and> appliedDate a \<noteq> None)"


section \<open>Example documents\<close>

definition exampleJob :: jobPosting where
  "exampleJob = \<lparr>job_id = ''j1'', title = ''Engineer'', company = ''Acme'', location = ''Remote'',
     job_salary = ''$90000'', job_type = ''Full-time'', experience = ''Mid Level'',
     description = ''Build things'', skills = [], postedBy = ''u2'', job_createdAt = 0,
     logo = [], isSaved = []\<rparr>"

definition exampleApplication :: application where
  "exampleApplication = \<lparr>app_id = ''a1'', job = ''j1'', user = ''u1'', status = ''saved'',
     appliedDate = None, responseDate = None, salary = None, app_notes = Some ''call back'',
     createdAt = 0, updatedAt = 0, interviewDate = None, interviewTime = None,
     interviewType = None, interviewLocation = None\<rparr>"

definition exampleStore :: store where
  "exampleStore = \<lparr>applicationDocs = [exampleApplication], jobDocs = [exampleJob]\<rparr>"



text \<open>
  An application created, and moved to \<open>interviewing\<close>, at noon UTC on 31 March 2024.
\<close>

definition lastDayStore :: store where
  "lastDayStore =
     \<lparr>applicationDocs =
        [exampleApplication\<lparr>status := ''interviewing'', createdAt := 1711886400000,
                             updatedAt := 1711886400000\<rparr>],
      jobDocs = [exampleJob]\<rparr>"

text \<open>The same application, stamped at noon UTC on 15 March 2024 instead.\<close>

definition midMonthStore :: store where
  "midMonthStore =
     \<lparr>applicationDocs =
        [exampleApplication\<lparr>status := ''interviewing'', createdAt := 1710504000000,
                             updatedAt := 1710504000000\<rparr>],
      jobDocs = [exampleJob]\<rparr>"

text \<open>An application to a job whose company is named \<open>constructor\<close>.\<close>

definition constructorStore :: store where
  "constructorStore =
     \<lparr>applicationDocs = [exampleApplication],
      jobDocs = [exampleJob\<lparr>company := ''constructor''\<rparr>]\<rparr>"

text \<open>
  An application answered 25 hours after it was sent, and one with a response date and no
  applied date.
\<close>

definition responseStore :: store where
  "responseStore =
     \<lparr>applicationDocs =
        [exampleApplication\<lparr>status := ''offer'', appliedDate := Some 0,
                             responseDate := Some 90000000\<rparr>,
         exampleApplication\<lparr>app_id := ''a2'', status := ''rejected'',
                             responseDate := Some 50000000\<rparr>],
      jobDocs = [exampleJob]\<rparr>"

text \<open>
  A single application answered after 40 hours; after 8.4 hours; and a single job, posted by
  \<open>u1\<close>, whose salary is a number above \<open>2^53\<close>.
\<close>

definition fortyHourStore :: store where
  "fortyHourStore =
     \<lparr>applicationDocs =
        [exampleApplication\<lparr>status := ''offer'', appliedDate := Some 0,
                             responseDate := Some 144000000\<rparr>],
      jobDocs = [exampleJob]\<rparr>"

definition fractionStore :: store where
  "fractionStore =
     \<lparr>applicationDocs =
        [exampleApplication\<lparr>status := ''offer'', appliedDate := Some 0,
                             responseDate := Some 30240000\<rparr>],
      jobDocs = [exampleJob]\<rparr>"


section \<open>Properties of the tracker\<close>

subsection \<open>Store operations\<close>

lemma setPath_app_id: "app_id (setPath kv a) = app_id a"
  by (cases "(kv, a)" rule: setPath.cases) simp_all

lemma applyUpdate_app_id: "app_id (applyUpdate u a) = app_id a"
  unfolding applyUpdate_def
  by (induction u arbitrary: a) (simp_all add: setPath_app_id)

lemma find_updateFirst_same:
  "find (\<lambda>a. app_id a = i) (updateFirst i u docs)
     = map_option (applyUpdate u) (find (\<lambda>a. app_id a = i) docs)"
  by (induction docs) (simp_all add: applyUpdate_app_id)

lemma find_updateFirst_other:
  "j \<noteq> i \<Longrightarrow> find (\<lambda>a. app_id a = j) (updateFirst i u docs) = find (\<lambda>a. app_id a = j) docs"
  by (induction docs) (auto simp: applyUpdate_app_id)

lemma applyUpdate_updateData:
  "applyUpdate (updateData a st now) a =
     a\<lparr>status := st, updatedAt := now,
       appliedDate := (if st = ''applied'' \<and> status a \<noteq> ''applied'' then Some now else appliedDate a),
       responseDate := (if (st = ''offer'' \<or> st = ''rejected'')
                           \<and> status a \<noteq> ''offer'' \<and> status a \<noteq> ''rejected''
                        then Some now else responseDate a)\<rparr>"
  by (simp add: applyUpdate_def updateData_def)

lemma validate_updateData:
  "st \<in> set validStatuses \<Longrightarrow> list_all validatePath (updateData a st now)"
  by (simp add: updateData_def)

lemma updateApplicationStatus_ok:
  assumes "st \<in> set validStatuses" "findById s i = Some a" "user a = u"
  shows "updateApplicationStatus s u i st now =
     (let s' = s\<lparr>applicationDocs := updateFirst i (updateData a st now) (applicationDocs s)\<rparr>
      in (Inr (Some (populate s' (applyUpdate (updateData a st now) a))), s'))"
  using assms
  by (simp add: updateApplicationStatus_def findByIdAndUpdate_def validate_updateData
      findById_def find_updateFirst_same Let_def)

lemma updateApplicationStatus_invalid:
  "st \<notin> set validStatuses \<Longrightarrow> snd (updateApplicationStatus s u i st now) = s"
  by (simp add: updateApplicationStatus_def)

lemma updateApplicationStatus_record:
  assumes "st \<in> set validStatuses" "findById s i = Some a" "user a = u"
  shows "findById (snd (updateApplicationStatus s u i st now)) i
           = Some (applyUpdate (updateData a st now) a)"
  using assms
  by (simp add: updateApplicationStatus_ok Let_def findById_def find_updateFirst_same)

lemma updateAll_append:
  "updateAll s u i (xs @ ys) = updateAll (updateAll s u i xs) u i ys"
  by (induction xs arbitrary: s) auto

lemma updateAll_record:
  assumes "findById s i = Some a" "user a = u"
  shows "\<exists>a'. findById (updateAll s u i reqs) i = Some a' \<and> user a' = u
            \<and> (appliedDate a \<noteq> None \<longrightarrow> appliedDate a' \<noteq> None)
            \<and> (responseDate a \<noteq> None \<longrightarrow> responseDate a' \<noteq> None)"
  using assms
proof (induction reqs arbitrary: s a)
  case Nil
  then show ?case by simp
next
  case (Cons r reqs)
  obtain st now where r: "r = (st, now)" by (cases r)
  show ?case
  proof (cases "st \<in> set validStatuses")
    case False
    with Cons r show ?thesis by (simp add: updateApplicationStatus_invalid)
  next
    case True
    let ?b = "applyUpdate (updateData a st now) a"
    have b: "findById (snd (updateApplicationStatus s u i st now)) i = Some ?b"
      using True Cons.prems by (rule updateApplicationStatus_record)
    have ub: "user ?b = u" using Cons.prems by (simp add: applyUpdate_updateData)
    from Cons.IH [OF b ub] obtain a' where
      a': "findById (updateAll (snd (updateApplicationStatus s u i st now)) u i reqs) i = Some a'"
        "user a' = u" "appliedDate ?b \<noteq> None \<longrightarrow> appliedDate a' \<noteq> None"
        "responseDate ?b \<noteq> None \<longrightarrow> responseDate a' \<noteq> None"
      by blast
    have "appliedDate a \<noteq> None \<longrightarrow> appliedDate ?b \<noteq> None"
      and "responseDate a \<noteq> None \<longrightarrow> responseDate ?b \<noteq> None"
      by (simp_all add: applyUpdate_updateData)
    with a' r show ?thesis by auto
  qed
qed

subsection \<open>C1: the applied date\<close>

text \<open>
  C1, as the code has it. Take an application \<open>a\<close> of user \<open>u\<close> and any sequence of
  status-change requests of \<open>u\<close> on it. The application is still stored afterwards; a set
  \<open>appliedDate\<close> is never cleared; and one more request with a valid status \<open>st\<close> at time
  \<open>now\<close> sets \<open>appliedDate\<close> to \<open>now\<close> exactly when \<open>st\<close> is \<open>applied\<close> and the status before
  the request is not, and leaves it as it was otherwise. So the date is stamped at the first
  entry into \<open>applied\<close>, and stamped again at every later entry from another status.
\<close>

theorem appliedDate_transitions:
  assumes "findById s i = Some a" and "user a = u"
  shows "\<exists>a'. findById (updateAll s u i reqs) i = Some a'
      \<and> (appliedDate a \<noteq> None \<longrightarrow> appliedDate a' \<noteq> None)
      \<and> (\<forall>st now. st \<in> set validStatuses \<longrightarrow>
           map_option appliedDate (findById (updateAll s u i (reqs @ [(st, now)])) i)
             = Some (if st = ''applied'' \<and> status a' \<noteq> ''applied'' then Some now
                     else appliedDate a'))"
proof -
  from updateAll_record [OF assms, of reqs] obtain a' where
    a': "findById (updateAll s u i reqs) i = Some a'" "user a' = u"
      "appliedDate a \<noteq> None \<longrightarrow> appliedDate a' \<noteq> None"
    by blast
  have "map_option appliedDate (findById (updateAll s u i (reqs @ [(st, now)])) i)
             = Some (if st = ''applied'' \<and> status a' \<noteq> ''applied'' then Some now
                     else appliedDate a')"
    if "st \<in> set validStatuses" for st now
    using updateApplicationStatus_record [OF that a'(1,2), of now]
    by (simp add: updateAll_append applyUpdate_updateData)
  with a' show ?thesis by blast
qed

text \<open>
  C1 as stated fails: after \<open>saved \<rightarrow> applied\<close> at time 1 the date is 1, and after leaving to
  \<open>interviewing\<close> at 2 and re-entering \<open>applied\<close> at 3 the date is 3.
\<close>

theorem appliedDate_reentry_counterexample:
  "map_option appliedDate
     (findById (updateAll exampleStore ''u1'' ''a1'' [(''applied'', 1)]) ''a1'') = Some (Some 1)
   \<and> map_option appliedDate
     (findById (updateAll exampleStore ''u1'' ''a1''
        [(''applied'', 1), (''interviewing'', 2), (''applied'', 3)]) ''a1'') = Some (Some 3)"
  by (simp add: exampleStore_def exampleApplication_def updateApplicationStatus_def
      findById_def findByIdAndUpdate_def updateData_def applyUpdate_def validStatuses_def)

theorem appliedDate_transitions_witness:
  "findById exampleStore ''a1'' = Some exampleApplication \<and> user exampleApplication = ''u1''
   \<and> map_option appliedDate
        (findById (updateAll exampleStore ''u1'' ''a1''
           ([(''applied'', 1), (''interviewing'', 2)] @ [(''applied'', 3)])) ''a1'')
      = Some (Some 3)"
proof -
  have h1: "findById exampleStore ''a1'' = Some exampleApplication"
    by (simp add: findById_def exampleStore_def exampleApplication_def)
  have h2: "user exampleApplication = ''u1''"
    by (simp add: exampleApplication_def)
  have v: "''applied'' \<in> set validStatuses" by (simp add: validStatuses_def)
  have st: "map_option status (findById (updateAll exampleStore ''u1'' ''a1''
           [(''applied'', 1), (''interviewing'', 2)]) ''a1'') = Some ''interviewing''"
    by (simp add: exampleStore_def exampleApplication_def updateApplicationStatus_def
      findById_def findByIdAndUpdate_def updateData_def applyUpdate_def validStatuses_def)
  from appliedDate_transitions [OF h1 h2, of "[(''applied'', 1), (''interviewing'', 2)]"]
  obtain a' where a': "findById (updateAll exampleStore ''u1'' ''a1''
           [(''applied'', 1), (''interviewing'', 2)]) ''a1'' = Some a'"
     "\<forall>st now. st \<in> set validStatuses \<longrightarrow>
           map_option appliedDate (findById (updateAll exampleStore ''u1'' ''a1''
              ([(''applied'', 1), (''interviewing'', 2)] @ [(st, now)])) ''a1'')
             = Some (if st = ''applied'' \<and> status a' \<noteq> ''applied'' then Some now
                     else appliedDate a')"
    by blast
  from st a'(1) have "status a' = ''interviewing''" by simp
  with a'(2) [rule_format, OF v, of 3] h1 h2 show ?thesis by simp
qed

subsection \<open>C2: the response date\<close>

text \<open>
  C2, as the code has it. Take an application \<open>a\<close> of user \<open>u\<close> and any sequence of
  status-change requests of \<open>u\<close> on it. The application is still stored afterwards; a set
  \<open>responseDate\<close> is never cleared; and one more request with a valid status \<open>st\<close> at time
  \<open>now\<close> sets \<open>responseDate\<close> to \<open>now\<close> exactly when \<open>st\<close> is \<open>offer\<close> or \<open>rejected\<close> and the
  status before the request is neither, and leaves it as it was otherwise. So a move between
  \<open>offer\<close> and \<open>rejected\<close> keeps the date, and a re-entry from any other status stamps it
  again.
\<close>

theorem responseDate_transitions:
  assumes "findById s i = Some a" and "user a = u"
  shows "\<exists>a'. findById (updateAll s u i reqs) i = Some a'
      \<and> (responseDate a \<noteq> None \<longrightarrow> responseDate a' \<noteq> None)
      \<and> (\<forall>st now. st \<in> set validStatuses \<longrightarrow>
           map_option responseDate (findById (updateAll s u i (reqs @ [(st, now)])) i)
             = Some (if (st = ''offer'' \<or> st = ''rejected'')
                        \<and> status a' \<noteq> ''offer'' \<and> status a' \<noteq> ''rejected''
                     then Some now else responseDate a'))"
proof -
  from updateAll_record [OF assms, of reqs] obtain a' where
    a': "findById (updateAll s u i reqs) i = Some a'" "user a' = u"
      "responseDate a \<noteq> None \<longrightarrow> responseDate a' \<noteq> None"
    by blast
  have "map_option responseDate (findById (updateAll s u i (reqs @ [(st, now)])) i)
             = Some (if (st = ''offer'' \<or> st = ''rejected'')
                        \<and> status a' \<noteq> ''offer'' \<and> status a' \<noteq> ''rejected''
                     then Some now else responseDate a')"
    if "st \<in> set validStatuses" for st now
    using updateApplicationStatus_record [OF that a'(1,2), of now]
    by (simp add: updateAll_append applyUpdate_updateData)
  with a' show ?thesis by blast
qed

text \<open>
  C2 as stated fails: after \<open>saved \<rightarrow> offer\<close> at time 1 the date is 1, and after leaving to
  \<open>interviewing\<close> at 2 and entering \<open>rejected\<close> at 3 the date is 3.
\<close>

theorem responseDate_reentry_counterexample:
  "map_option responseDate
     (findById (updateAll exampleStore ''u1'' ''a1'' [(''offer'', 1)]) ''a1'') = Some (Some 1)
   \<and> map_option responseDate
     (findById (updateAll exampleStore ''u1'' ''a1''
        [(''offer'', 1), (''interviewing'', 2), (''rejected'', 3)]) ''a1'') = Some (Some 3)"
  by (simp add: exampleStore_def exampleApplication_def updateApplicationStatus_def
      findById_def findByIdAndUpdate_def updateData_def applyUpdate_def validStatuses_def)

theorem responseDate_transitions_witness:
  "findById exampleStore ''a1'' = Some exampleApplication \<and> user exampleApplication = ''u1''
   \<and> map_option responseDate
        (findById (updateAll exampleStore ''u1'' ''a1''
           ([(''applied'', 1), (''offer'', 2)] @ [(''rejected'', 3)])) ''a1'')
      = Some (Some 2)"
proof -
  have h1: "findById exampleStore ''a1'' = Some exampleApplication"
    by (simp add: findById_def exampleStore_def exampleApplication_def)
  have h2: "user exampleApplication = ''u1''"
    by (simp add: exampleApplication_def)
  have v: "''rejected'' \<in> set validStatuses" by (simp add: validStatuses_def)
  have st: "findById (updateAll exampleStore ''u1'' ''a1''
           [(''applied'', 1), (''offer'', 2)]) ''a1''
      = Some (exampleApplication\<lparr>status := ''offer'', updatedAt := 2, appliedDate := Some 1,
                responseDate := Some 2\<rparr>)"
    by (simp add: exampleStore_def exampleApplication_def updateApplicationStatus_def
      findById_def findByIdAndUpdate_def updateData_def applyUpdate_def validStatuses_def)
  from responseDate_transitions [OF h1 h2, of "[(''applied'', 1), (''offer'', 2)]"]
  obtain a' where a': "findById (updateAll exampleStore ''u1'' ''a1''
           [(''applied'', 1), (''offer'', 2)]) ''a1'' = Some a'"
     "\<forall>st now. st \<in> set validStatuses \<longrightarrow>
           map_option responseDate (findById (updateAll exampleStore ''u1'' ''a1''
              ([(''applied'', 1), (''offer'', 2)] @ [(st, now)])) ''a1'')
             = Some (if (st = ''offer'' \<or> st = ''rejected'')
                        \<and> status a' \<noteq> ''offer'' \<and> status a' \<noteq> ''rejected''
                     then Some now else responseDate a')"
    by blast
  from st a'(1) have "status a' = ''offer''" "responseDate a' = Some 2" by auto
  with a'(2) [rule_format, OF v, of 3] h1 h2 show ?thesis by simp
qed

subsection \<open>C7: the errors of status change and deletion\<close>

text \<open>
  C7. \<open>updateApplicationStatus\<close> answers a status outside the five values with
  \<open>Invalid status\<close>, 400. With a valid status it answers \<open>Application not found\<close>, 404, when
  no application has the id, and \<open>Not authorized\<close>, 403, when the application belongs to
  another user. \<open>deleteApplication\<close> answers 404 and 403 in the same two cases. An error
  with code 403 is never equal to one with code 404, and the store is unchanged in each case.
\<close>

theorem tracker_errors:
  "(st \<notin> set validStatuses \<longrightarrow>
      updateApplicationStatus s u i st now = (Inl (ErrorResponse ''Invalid status'' 400), s))
   \<and> (st \<in> set validStatuses \<and> findById s i = None \<longrightarrow>
      updateApplicationStatus s u i st now = (Inl (ErrorResponse ''Application not found'' 404), s))
   \<and> (st \<in> set validStatuses \<and> findById s i = Some a \<and> user a \<noteq> u \<longrightarrow>
      updateApplicationStatus s u i st now
        = (Inl (ErrorResponse ''Not authorized to update this application'' 403), s))
   \<and> (findById s i = None \<longrightarrow>
      deleteApplication s u i = (Inl (ErrorResponse ''Application not found'' 404), s))
   \<and> (findById s i = Some a \<and> user a \<noteq> u \<longrightarrow>
      deleteApplication s u i
        = (Inl (ErrorResponse ''Not authorized to delete this application'' 403), s))
   \<and> (\<forall>m m'. ErrorResponse m 403 \<noteq> ErrorResponse m' 404)"
  by (simp add: updateApplicationStatus_def deleteApplication_def)

theorem tracker_errors_witness:
  "updateApplicationStatus exampleStore ''u1'' ''a1'' ''hired'' 5
     = (Inl (ErrorResponse ''Invalid status'' 400), exampleStore)
   \<and> updateApplicationStatus exampleStore ''u1'' ''a9'' ''offer'' 5
     = (Inl (ErrorResponse ''Application not found'' 404), exampleStore)
   \<and> updateApplicationStatus exampleStore ''u2'' ''a1'' ''offer'' 5
     = (Inl (ErrorResponse ''Not authorized to update this application'' 403), exampleStore)
   \<and> deleteApplication exampleStore ''u1'' ''a9''
     = (Inl (ErrorResponse ''Application not found'' 404), exampleStore)
   \<and> deleteApplication exampleStore ''u2'' ''a1''
     = (Inl (ErrorResponse ''Not authorized to delete this application'' 403), exampleStore)"
proof -
  have inv: "''hired'' \<notin> set validStatuses" and val: "''offer'' \<in> set validStatuses"
    by (simp_all add: validStatuses_def)
  have none: "findById exampleStore ''a9'' = None"
    and some: "findById exampleStore ''a1'' = Some exampleApplication"
    and other: "user exampleApplication \<noteq> ''u2''"
    by (simp_all add: findById_def exampleStore_def exampleApplication_def)
  show ?thesis
    using tracker_errors [of "''hired''" exampleStore "''u1''" "''a1''" 5 exampleApplication]
      tracker_errors [of "''offer''" exampleStore "''u1''" "''a9''" 5 exampleApplication]
      tracker_errors [of "''offer''" exampleStore "''u2''" "''a1''" 5 exampleApplication]
      inv val none some other
    by simp
qed

subsection \<open>C8: creating an application\<close>

text \<open>
  C8, as the code has it. \<open>createApplication\<close> answers \<open>Please provide a job ID\<close>, 400,
  when the body has no \<open>jobId\<close> or an empty one. For a non-empty \<open>jobId\<close> it answers
  \<open>Job not found\<close>, 404, when no job has the id; \<open>Application for this job already exists\<close>,
  400, when the user already has an application for the job; otherwise, when the supplied
  status (\<open>saved\<close> when none is supplied) is one of the five values, it appends a new
  application of the user for the job with that status; and when the supplied status is not
  one of the five values, the schema rejects the document. The store is unchanged in every
  case but the successful one.
\<close>

theorem createApplication_cases:
  "(bodyJobId = None \<or> bodyJobId = Some [] \<longrightarrow>
      createApplication s newId u bodyJobId bodyStatus now
        = (Inl (ErrorResponse ''Please provide a job ID'' 400), s))
   \<and> (jobId \<noteq> [] \<and> findJobById s jobId = None \<longrightarrow>
      createApplication s newId u (Some jobId) bodyStatus now
        = (Inl (ErrorResponse ''Job not found'' 404), s))
   \<and> (jobId \<noteq> [] \<and> findJobById s jobId = Some j
        \<and> (\<exists>e \<in> set (applicationDocs s). user e = u \<and> job e = jobId) \<longrightarrow>
      createApplication s newId u (Some jobId) bodyStatus now
        = (Inl (ErrorResponse ''Application for this job already exists'' 400), s))
   \<and> (jobId \<noteq> [] \<and> findJobById s jobId = Some j
        \<and> \<not> (\<exists>e \<in> set (applicationDocs s). user e = u \<and> job e = jobId)
        \<and> statusOrDefault bodyStatus \<in> set validStatuses \<longrightarrow>
      (\<exists>a. createApplication s newId u (Some jobId) bodyStatus now
              = (Inr (a, Some j), s\<lparr>applicationDocs := applicationDocs s @ [a]\<rparr>)
          \<and> status a = statusOrDefault bodyStatus
          \<and> user a = u \<and> job a = jobId \<and> app_id a = newId))
   \<and> (jobId \<noteq> [] \<and> findJobById s jobId = Some j
        \<and> \<not> (\<exists>e \<in> set (applicationDocs s). user e = u \<and> job e = jobId)
        \<and> statusOrDefault bodyStatus \<notin> set validStatuses \<longrightarrow>
      createApplication s newId u (Some jobId) bodyStatus now
        = (Inl (ValidationError ''status''), s))"
proof -
  have dup: "(\<exists>e \<in> set (applicationDocs s). user e = u \<and> job e = jobId)
       \<longleftrightarrow> findOne s u jobId \<noteq> None"
    by (auto simp: findOne_def find_None_iff)
  have missing: "bodyJobId = None \<or> bodyJobId = Some [] \<longrightarrow>
      createApplication s newId u bodyJobId bodyStatus now
        = (Inl (ErrorResponse ''Please provide a job ID'' 400), s)"
    by (auto simp: createApplication_def Let_def)
  have rest: "(jobId \<noteq> [] \<and> findJobById s jobId = None \<longrightarrow>
      createApplication s newId u (Some jobId) bodyStatus now
        = (Inl (ErrorResponse ''Job not found'' 404), s))
   \<and> (jobId \<noteq> [] \<and> findJobById s jobId = Some j
        \<and> findOne s u jobId \<noteq> None \<longrightarrow>
      createApplication s newId u (Some jobId) bodyStatus now
        = (Inl (ErrorResponse ''Application for this job already exists'' 400), s))
   \<and> (jobId \<noteq> [] \<and> findJobById s jobId = Some j
        \<and> \<not> findOne s u jobId \<noteq> None
        \<and> statusOrDefault bodyStatus \<in> set validStatuses \<longrightarrow>
      (\<exists>a. createApplication s newId u (Some jobId) bodyStatus now
              = (Inr (a, Some j), s\<lparr>applicationDocs := applicationDocs s @ [a]\<rparr>)
          \<and> status a = statusOrDefault bodyStatus
          \<and> user a = u \<and> job a = jobId \<and> app_id a = newId))
   \<and> (jobId \<noteq> [] \<and> findJobById s jobId = Some j
        \<and> \<not> findOne s u jobId \<noteq> None
        \<and> statusOrDefault bodyStatus \<notin> set validStatuses \<longrightarrow>
      createApplication s newId u (Some jobId) bodyStatus now
        = (Inl (ValidationError ''status''), s))"
    by (auto simp: createApplication_def create_def populate_def findJobById_def Let_def
        statusOrDefault_def split: option.splits)
  from missing rest show ?thesis unfolding dup by blast
qed

text \<open>
  C8 as stated fails twice. With an existing job, no earlier application and the supplied
  status \<open>hired\<close>, no application is created. And the empty \<open>jobId\<close>, which resolves to no
  job, is answered with 400, not with 404.
\<close>

theorem createApplication_counterexample:
  "createApplication (exampleStore\<lparr>applicationDocs := []\<rparr>) ''a2'' ''u1'' (Some ''j1'')
     (Some ''hired'') 5
     = (Inl (ValidationError ''status''), exampleStore\<lparr>applicationDocs := []\<rparr>)
   \<and> findJobById exampleStore [] = None
   \<and> createApplication exampleStore ''a2'' ''u1'' (Some []) None 5
     = (Inl (ErrorResponse ''Please provide a job ID'' 400), exampleStore)"
  by (simp add: createApplication_def create_def findJobById_def findOne_def exampleStore_def
      exampleJob_def validStatuses_def statusOrDefault_def)

theorem createApplication_cases_witness:
  "createApplication exampleStore ''a2'' ''u1'' None (Some ''applied'') 5
     = (Inl (ErrorResponse ''Please provide a job ID'' 400), exampleStore)
   \<and> createApplication exampleStore ''a2'' ''u1'' (Some []) None 5
     = (Inl (ErrorResponse ''Please provide a job ID'' 400), exampleStore)
   \<and> createApplication exampleStore ''a2'' ''u1'' (Some ''j9'') None 5
     = (Inl (ErrorResponse ''Job not found'' 404), exampleStore)
   \<and> createApplication exampleStore ''a2'' ''u1'' (Some ''j1'') None 5
     = (Inl (ErrorResponse ''Application for this job already exists'' 400), exampleStore)
   \<and> (\<exists>a. createApplication exampleStore ''a2'' ''u3'' (Some ''j1'') None 5
            = (Inr (a, Some exampleJob), exampleStore\<lparr>applicationDocs := [exampleApplication, a]\<rparr>)
          \<and> status a = ''saved'' \<and> user a = ''u3'')
   \<and> (\<exists>a. createApplication exampleStore ''a2'' ''u3'' (Some ''j1'') (Some ''applied'') 5
            = (Inr (a, Some exampleJob), exampleStore\<lparr>applicationDocs := [exampleApplication, a]\<rparr>)
          \<and> status a = ''applied'' \<and> user a = ''u3'')
   \<and> createApplication exampleStore ''a2'' ''u3'' (Some ''j1'') (Some ''hired'') 5
     = (Inl (ValidationError ''status''), exampleStore)"
proof -
  have j9: "''j9'' \<noteq> [] \<and> findJobById exampleStore ''j9'' = None"
    and j1: "''j1'' \<noteq> [] \<and> findJobById exampleStore ''j1'' = Some exampleJob"
    by (simp_all add: findJobById_def exampleStore_def exampleJob_def)
  have dup: "\<exists>e \<in> set (applicationDocs exampleStore). user e = ''u1'' \<and> job e = ''j1''"
    and nodup: "\<not> (\<exists>e \<in> set (applicationDocs exampleStore). user e = ''u3'' \<and> job e = ''j1'')"
    by (simp_all add: exampleStore_def exampleApplication_def)
  have ok: "statusOrDefault None \<in> set validStatuses"
    and ok': "statusOrDefault (Some ''applied'') \<in> set validStatuses"
    and bad: "statusOrDefault (Some ''hired'') \<notin> set validStatuses"
    by (simp_all add: validStatuses_def statusOrDefault_def)
  have docs: "applicationDocs exampleStore = [exampleApplication]"
    by (simp add: exampleStore_def)
  have m1: "createApplication exampleStore ''a2'' ''u1'' None (Some ''applied'') 5
     = (Inl (ErrorResponse ''Please provide a job ID'' 400), exampleStore)"
    using createApplication_cases [where bodyJobId = None and s = exampleStore
        and newId = "''a2''" and u = "''u1''" and bodyStatus = "Some ''applied''" and now = 5]
    by blast
  have m2: "createApplication exampleStore ''a2'' ''u1'' (Some []) None 5
     = (Inl (ErrorResponse ''Please provide a job ID'' 400), exampleStore)"
    using createApplication_cases [where bodyJobId = "Some []" and s = exampleStore
        and newId = "''a2''" and u = "''u1''" and bodyStatus = None and now = 5]
    by blast
  have 1: "createApplication exampleStore ''a2'' ''u1'' (Some ''j9'') None 5
     = (Inl (ErrorResponse ''Job not found'' 404), exampleStore)"
    using createApplication_cases [where jobId = "''j9''" and s = exampleStore
        and newId = "''a2''" and u = "''u1''" and bodyStatus = None and now = 5] j9
    by blast
  have 2: "createApplication exampleStore ''a2'' ''u1'' (Some ''j1'') None 5
     = (Inl (ErrorResponse ''Application for this job already exists'' 400), exampleStore)"
    using createApplication_cases [where jobId = "''j1''" and s = exampleStore
        and newId = "''a2''" and u = "''u1''" and bodyStatus = None and now = 5
        and j = exampleJob] j1 dup
    by blast
  have 3: "\<exists>a. createApplication exampleStore ''a2'' ''u3'' (Some ''j1'') None 5
            = (Inr (a, Some exampleJob), exampleStore\<lparr>applicationDocs := [exampleApplication, a]\<rparr>)
          \<and> status a = ''saved'' \<and> user a = ''u3''"
    using createApplication_cases [where jobId = "''j1''" and s = exampleStore
        and newId = "''a2''" and u = "''u3''" and bodyStatus = None and now = 5
        and j = exampleJob] j1 nodup ok docs
    by (auto simp: statusOrDefault_def)
  have c2: "\<exists>a. createApplication exampleStore ''a2'' ''u3'' (Some ''j1'') (Some ''applied'') 5
            = (Inr (a, Some exampleJob), exampleStore\<lparr>applicationDocs := [exampleApplication, a]\<rparr>)
          \<and> status a = ''applied'' \<and> user a = ''u3''"
    using createApplication_cases [where jobId = "''j1''" and s = exampleStore
        and newId = "''a2''" and u = "''u3''" and bodyStatus = "Some ''applied''" and now = 5
        and j = exampleJob] j1 nodup ok' docs
    by (auto simp: statusOrDefault_def)
  have 4: "createApplication exampleStore ''a2'' ''u3'' (Some ''j1'') (Some ''hired'') 5
     = (Inl (ValidationError ''status''), exampleStore)"
    using createApplication_cases [where jobId = "''j1''" and s = exampleStore
        and newId = "''a2''" and u = "''u3''" and bodyStatus = "Some ''hired''" and now = 5
        and j = exampleJob] j1 nodup bad
    by blast
  from m1 m2 1 2 3 c2 4 show ?thesis by blast
qed

subsection \<open>C9: what a status change writes\<close>

text \<open>
  C9. The update document names no field other than \<open>status\<close>, \<open>updatedAt\<close>, \<open>appliedDate\<close>
  and \<open>responseDate\<close>, and always sets \<open>updatedAt\<close> to \<open>now\<close>. When the request succeeds
  (valid status, application of the caller), the stored application has the requested status
  and \<open>updatedAt = now\<close>, also when the status is the one it already had, and it differs from
  the application before in those four fields at most; every other application and the jobs
  are as before.
\<close>

theorem status_change_frame:
  "set (map fst (updateData a st now))
      \<subseteq> {''status'', ''updatedAt'', ''appliedDate'', ''responseDate''}
   \<and> map_of (updateData a st now) ''updatedAt'' = Some (VDate now)
   \<and> (st \<in> set validStatuses \<and> findById s i = Some a \<and> user a = u \<longrightarrow>
        (\<exists>a'. updateApplicationStatus s u i st now
                = (Inr (Some (populate (snd (updateApplicationStatus s u i st now)) a')),
                   snd (updateApplicationStatus s u i st now))
           \<and> findById (snd (updateApplicationStatus s u i st now)) i = Some a'
           \<and> status a' = st \<and> updatedAt a' = now
           \<and> a'\<lparr>status := status a, updatedAt := updatedAt a,
                 appliedDate := appliedDate a, responseDate := responseDate a\<rparr> = a
           \<and> (\<forall>j. j \<noteq> i \<longrightarrow>
                 findById (snd (updateApplicationStatus s u i st now)) j = findById s j)
           \<and> jobDocs (snd (updateApplicationStatus s u i st now)) = jobDocs s))"
proof (intro conjI impI)
  show "set (map fst (updateData a st now))
      \<subseteq> {''status'', ''updatedAt'', ''appliedDate'', ''responseDate''}"
    by (auto simp: updateData_def)
  show "map_of (updateData a st now) ''updatedAt'' = Some (VDate now)"
    by (simp add: updateData_def)
next
  assume h: "st \<in> set validStatuses \<and> findById s i = Some a \<and> user a = u"
  let ?a' = "applyUpdate (updateData a st now) a"
  let ?s' = "snd (updateApplicationStatus s u i st now)"
  from h have ok: "updateApplicationStatus s u i st now =
     (let s' = s\<lparr>applicationDocs := updateFirst i (updateData a st now) (applicationDocs s)\<rparr>
      in (Inr (Some (populate s' ?a')), s'))"
    by (simp add: updateApplicationStatus_ok)
  have 1: "updateApplicationStatus s u i st now = (Inr (Some (populate ?s' ?a')), ?s')"
    by (simp add: ok Let_def)
  have 2: "findById ?s' i = Some ?a'"
    using h by (simp add: updateApplicationStatus_record)
  have 3: "status ?a' = st \<and> updatedAt ?a' = now" by (simp add: applyUpdate_updateData)
  have 4: "?a'\<lparr>status := status a, updatedAt := updatedAt a,
                 appliedDate := appliedDate a, responseDate := responseDate a\<rparr> = a"
    by (simp add: applyUpdate_updateData)
  have 5: "\<forall>j. j \<noteq> i \<longrightarrow> findById ?s' j = findById s j"
    by (simp add: ok Let_def findById_def find_updateFirst_other)
  have 6: "jobDocs ?s' = jobDocs s" by (simp add: ok Let_def)
  from 1 2 3 4 5 6
  show "\<exists>a'. updateApplicationStatus s u i st now = (Inr (Some (populate ?s' a')), ?s')
           \<and> findById ?s' i = Some a'
           \<and> status a' = st \<and> updatedAt a' = now
           \<and> a'\<lparr>status := status a, updatedAt := updatedAt a,
                 appliedDate := appliedDate a, responseDate := responseDate a\<rparr> = a
           \<and> (\<forall>j. j \<noteq> i \<longrightarrow> findById ?s' j = findById s j)
           \<and> jobDocs ?s' = jobDocs s"
    by blast
qed

theorem status_change_frame_witness:
  "''saved'' \<in> set validStatuses \<and> findById exampleStore ''a1'' = Some exampleApplication
   \<and> user exampleApplication = ''u1''
   \<and> (\<exists>a'. findById (snd (updateApplicationStatus exampleStore ''u1'' ''a1'' ''saved'' 7)) ''a1''
             = Some a'
          \<and> status a' = ''saved'' \<and> updatedAt a' = 7 \<and> app_notes a' = Some ''call back''
          \<and> createdAt a' = 0)"
proof -
  have h: "''saved'' \<in> set validStatuses \<and> findById exampleStore ''a1'' = Some exampleApplication
     \<and> user exampleApplication = ''u1''"
    by (simp add: validStatuses_def findById_def exampleStore_def exampleApplication_def)
  from status_change_frame [of exampleApplication "''saved''" 7 exampleStore "''a1''" "''u1''"] h
  obtain a' where a':
    "findById (snd (updateApplicationStatus exampleStore ''u1'' ''a1'' ''saved'' 7)) ''a1'' = Some a'"
    "status a' = ''saved''" "updatedAt a' = 7"
    "a'\<lparr>status := status exampleApplication, updatedAt := updatedAt exampleApplication,
        appliedDate := appliedDate exampleApplication,
        responseDate := responseDate exampleApplication\<rparr> = exampleApplication"
    by blast
  from a'(4) have "app_notes (a'\<lparr>status := status exampleApplication,
        updatedAt := updatedAt exampleApplication,
        appliedDate := appliedDate exampleApplication,
        responseDate := responseDate exampleApplication\<rparr>) = app_notes exampleApplication"
    and "createdAt (a'\<lparr>status := status exampleApplication,
        updatedAt := updatedAt exampleApplication,
        appliedDate := appliedDate exampleApplication,
        responseDate := responseDate exampleApplication\<rparr>) = createdAt exampleApplication"
    by simp_all
  then have "app_notes a' = Some ''call back''" "createdAt a' = 0"
    by (simp_all add: exampleApplication_def)
  with a'(1,2,3) h show ?thesis by blast
qed

subsection \<open>C10: validation comes before the lookup\<close>

text \<open>
  C10. For a status outside the five values, \<open>updateApplicationStatus\<close> answers
  \<open>Invalid status\<close>, 400, and returns the store it was given, for every store, user and id:
  whether the application exists or belongs to the caller is never looked at.
\<close>

theorem invalid_status_first:
  "st \<notin> set validStatuses \<Longrightarrow>
     updateApplicationStatus s u i st now = (Inl (ErrorResponse ''Invalid status'' 400), s)"
  by (simp add: updateApplicationStatus_def)

theorem invalid_status_first_witness:
  "''hired'' \<notin> set validStatuses
   \<and> updateApplicationStatus exampleStore ''u2'' ''a1'' ''hired'' 5
       = (Inl (ErrorResponse ''Invalid status'' 400), exampleStore)
   \<and> updateApplicationStatus exampleStore ''u1'' ''a9'' ''hired'' 5
       = (Inl (ErrorResponse ''Invalid status'' 400), exampleStore)"
proof -
  have inv: "''hired'' \<notin> set validStatuses" by (simp add: validStatuses_def)
  show ?thesis
    using inv invalid_status_first [OF inv, of exampleStore "''u2''" "''a1''" 5]
      invalid_status_first [OF inv, of exampleStore "''u1''" "''a9''" 5]
    by simp
qed

section \<open>Properties of the analytics\<close>

subsection \<open>Rounding to a double\<close>









lemma double_zero: "double 0 = 0"
  by (simp add: double_def)


text \<open>Evaluation of \<open>double\<close> and \<open>floor\<close> on numerals.\<close>

lemma floor_divide_numeral_rat:
  "\<lfloor>numeral a / numeral b :: rat\<rfloor> = numeral a div numeral b"
  by (metis floor_divide_of_int_eq of_int_numeral)

lemma floor_one_divide_numeral_rat:
  "\<lfloor>1 / numeral b :: rat\<rfloor> = 1 div numeral b"
  by (metis floor_divide_of_int_eq of_int_1 of_int_numeral)

lemmas double_eval = double_def normalise_def scaleDown.simps scaleUp.simps roundHalfEven_def
  Let_def floor_divide_numeral_rat floor_one_divide_numeral_rat

lemma double_examples:
  "double (7 / 20) = 3152519739159347 / 9007199254740992"
  "double (1 / 10) = 3602879701896397 / 36028797018963968"
  "double 9007199254740993 = 9007199254740992"
  by (simp_all add: double_eval)

text \<open>23 of 40 is 57 percent in doubles, where the exact quotient rounds to 58.\<close>

lemma rate_example: "rate 23 40 = 57" "Math_round (23 / 40 * 100) = 58"
  by (simp_all add: rate_def Math_round_def double_eval)

subsection \<open>Projections of the summary\<close>


lemma getAnalytics_averageResponseTime:
  "averageResponseTime (metrics (getAnalytics utc y m start s u)) =
     calculateAverageResponseTime (findApplications s u start)"
  by (simp add: getAnalytics_def Let_def)

lemma getAnalytics_monthlyData:
  "monthlyData (getAnalytics utc y m start s u) =
     calculateMonthlyData utc y m (findApplications s u start)"
  by (simp add: getAnalytics_def Let_def)

lemma getAnalytics_topCompanies:
  "topCompanies (getAnalytics utc y m start s u) =
     calculateTopCompanies (findApplications s u start)"
  by (simp add: getAnalytics_def Let_def)

lemma responseTimes_findApplications:
  "responseTimes (findApplications s u start)
     = map (\<lambda>a. double (double (of_int (the (responseDate a) - the (appliedDate a)))
                        / of_int msPerDay))
         (filter (bothDates u start) (applicationDocs s))"
proof -
  have "responseTimes (map (populate s) docs)
     = map (\<lambda>a. double (double (of_int (the (responseDate a) - the (appliedDate a)))
                        / of_int msPerDay))
         (filter (\<lambda>a. responseDate a \<noteq> None \<and> appliedDate a \<noteq> None) docs)" for docs
    by (induction docs)
       (auto simp: responseTimes_def populate_def split: option.splits)
  moreover have "filter (bothDates u start) docs
      = filter (\<lambda>a. responseDate a \<noteq> None \<and> appliedDate a \<noteq> None)
          (filter (\<lambda>a. user a = u \<and> start \<le> createdAt a) docs)" for docs
    by (induction docs) (auto simp: bothDates_def)
  ultimately show ?thesis
    by (simp add: findApplications_def)
qed

subsection \<open>Calendar values\<close>

lemma newDate_2024:
  "newDate id 2024 (-3) 1 = 1696118400000" "newDate id 2024 (-2) 0 = 1698710400000"
  "newDate id 2024 (-2) 1 = 1698796800000" "newDate id 2024 (-1) 0 = 1701302400000"
  "newDate id 2024 (-1) 1 = 1701388800000" "newDate id 2024 0 0 = 1703980800000"
  "newDate id 2024 0 1 = 1704067200000" "newDate id 2024 1 0 = 1706659200000"
  "newDate id 2024 1 1 = 1706745600000" "newDate id 2024 2 0 = 1709164800000"
  "newDate id 2024 2 1 = 1709251200000" "newDate id 2024 3 0 = 1711843200000"
  "newDate id 2024 3 1 = 1711929600000"
  by (simp_all add: newDate_def MakeDay_def DayFromYear_def InLeapYear_def monthStartDay_def
      msPerDay_def)

subsection \<open>Digit runs and salary values\<close>


























subsection \<open>C3: the average salary\<close>




subsection \<open>C4: the monthly trend\<close>

text \<open>
  C4 fails on the last day of a month. On a server in UTC, in March 2024, an application
  that was created and moved to \<open>interviewing\<close> at noon on 31 March lies in March, between
  \<open>new Date(2024, 2, 1)\<close> and \<open>new Date(2024, 3, 1)\<close>; yet the entry of March counts no
  application and no interview, because \<open>monthEnd = new Date(2024, 3, 0)\<close> is midnight at the
  start of 31 March. Stamped at noon on 15 March, the same application is counted once as an
  application and once as an interview.
\<close>

theorem monthlyData_last_day:
  "map (\<lambda>app. (status (fst app), createdAt (fst app), updatedAt (fst app)))
       (findApplications lastDayStore ''u1'' 0)
     = [(''interviewing'', 1711886400000, 1711886400000)]
   \<and> newDate id 2024 2 1 \<le> 1711886400000 \<and> 1711886400000 < newDate id 2024 3 1
   \<and> monthlyData (getAnalytics id 2024 2 0 lastDayStore ''u1'')
     = [\<lparr>month = 9, month_applications = 0, month_interviews = 0, month_offers = 0\<rparr>,
        \<lparr>month = 10, month_applications = 0, month_interviews = 0, month_offers = 0\<rparr>,
        \<lparr>month = 11, month_applications = 0, month_interviews = 0, month_offers = 0\<rparr>,
        \<lparr>month = 0, month_applications = 0, month_interviews = 0, month_offers = 0\<rparr>,
        \<lparr>month = 1, month_applications = 0, month_interviews = 0, month_offers = 0\<rparr>,
        \<lparr>month = 2, month_applications = 0, month_interviews = 0, month_offers = 0\<rparr>]
   \<and> last (monthlyData (getAnalytics id 2024 2 0 midMonthStore ''u1''))
     = \<lparr>month = 2, month_applications = 1, month_interviews = 1, month_offers = 0\<rparr>"
proof -
  have apps: "findApplications lastDayStore ''u1'' 0
      = [(exampleApplication\<lparr>status := ''interviewing'', createdAt := 1711886400000,
                                 updatedAt := 1711886400000\<rparr>, Some exampleJob)]"
    by (simp add: findApplications_def lastDayStore_def populate_def findJobById_def
        exampleApplication_def exampleJob_def)
  have 1: "map (\<lambda>app. (status (fst app), createdAt (fst app), updatedAt (fst app)))
       (findApplications lastDayStore ''u1'' 0)
     = [(''interviewing'', 1711886400000, 1711886400000)]"
    by (simp add: apps)
  have 2: "newDate id 2024 2 1 \<le> 1711886400000 \<and> 1711886400000 < newDate id 2024 3 1"
    by (simp add: newDate_2024)
  have 3: "monthlyData (getAnalytics id 2024 2 0 lastDayStore ''u1'')
     = [\<lparr>month = 9, month_applications = 0, month_interviews = 0, month_offers = 0\<rparr>,
        \<lparr>month = 10, month_applications = 0, month_interviews = 0, month_offers = 0\<rparr>,
        \<lparr>month = 11, month_applications = 0, month_interviews = 0, month_offers = 0\<rparr>,
        \<lparr>month = 0, month_applications = 0, month_interviews = 0, month_offers = 0\<rparr>,
        \<lparr>month = 1, month_applications = 0, month_interviews = 0, month_offers = 0\<rparr>,
        \<lparr>month = 2, month_applications = 0, month_interviews = 0, month_offers = 0\<rparr>]"
    by (simp add: getAnalytics_monthlyData apps calculateMonthlyData_def monthEntryOf_def
        newDate_2024)
  have apps': "findApplications midMonthStore ''u1'' 0
      = [(exampleApplication\<lparr>status := ''interviewing'', createdAt := 1710504000000,
                                 updatedAt := 1710504000000\<rparr>, Some exampleJob)]"
    by (simp add: findApplications_def midMonthStore_def populate_def findJobById_def
        exampleApplication_def exampleJob_def)
  have 4: "last (monthlyData (getAnalytics id 2024 2 0 midMonthStore ''u1''))
     = \<lparr>month = 2, month_applications = 1, month_interviews = 1, month_offers = 0\<rparr>"
    by (simp add: getAnalytics_monthlyData apps' calculateMonthlyData_def monthEntryOf_def
        newDate_2024)
  from 1 2 3 4 show ?thesis by blast
qed

subsection \<open>C5: the top companies\<close>

text \<open>
  C5 fails for a company whose name is a property name of \<open>Object.prototype\<close>. A user with
  one application, to a job of the company \<open>constructor\<close>, gets an empty list of top
  companies; with the company \<open>Acme\<close> the same application gives one entry with one
  application.
\<close>

theorem topCompanies_constructor:
  "map (\<lambda>app. map_option company (snd app)) (findApplications constructorStore ''u1'' 0)
     = [Some ''constructor'']
   \<and> topCompanies (getAnalytics id 2024 2 0 constructorStore ''u1'') = []
   \<and> topCompanies (getAnalytics id 2024 2 0 exampleStore ''u1'')
     = [\<lparr>name = ''Acme'', applications = 1, interviews = 0, offers = 0, successRate = 0\<rparr>]"
proof -
  have apps: "findApplications constructorStore ''u1'' 0
      = [(exampleApplication, Some (exampleJob\<lparr>company := ''constructor''\<rparr>))]"
    by (simp add: findApplications_def constructorStore_def populate_def findJobById_def
        exampleApplication_def exampleJob_def)
  have apps': "findApplications exampleStore ''u1'' 0 = [(exampleApplication, Some exampleJob)]"
    by (simp add: findApplications_def exampleStore_def populate_def findJobById_def
        exampleApplication_def exampleJob_def)
  have 1: "map (\<lambda>app. map_option company (snd app)) (findApplications constructorStore ''u1'' 0)
     = [Some ''constructor'']"
    by (simp add: apps)
  have stats: "addToCompanyStats [] (exampleApplication, Some (exampleJob\<lparr>company := ''constructor''\<rparr>))
      = []"
    by (simp add: addToCompanyStats_def objectPrototypeKeys_def)
  have 2: "topCompanies (getAnalytics id 2024 2 0 constructorStore ''u1'') = []"
    by (simp add: getAnalytics_topCompanies apps calculateTopCompanies_def stats
        Object_entries_def)
  have stats': "addToCompanyStats [] (exampleApplication, Some exampleJob)
      = [(''Acme'', \<lparr>stat_applications = 1, stat_interviews = 0, stat_offers = 0\<rparr>)]"
    by (simp add: addToCompanyStats_def objectPrototypeKeys_def exampleJob_def
        exampleApplication_def countApplication_def)
  have idx: "\<not> isArrayIndex ''Acme''"
    by (simp add: isArrayIndex_def isDigit_def)
  have 3: "topCompanies (getAnalytics id 2024 2 0 exampleStore ''u1'')
     = [\<lparr>name = ''Acme'', applications = 1, interviews = 0, offers = 0, successRate = 0\<rparr>]"
    by (simp add: getAnalytics_topCompanies apps' calculateTopCompanies_def stats'
        Object_entries_def idx toTopCompany_def Math_round_def double_zero
        floor_one_divide_numeral_rat)
  from 1 2 3 show ?thesis by blast
qed

subsection \<open>C6: the average response time\<close>

text \<open>
  C6, as the code has it. The \<open>averageResponseTime\<close> of the summary is 0 when no application
  of the user in the window has both dates set. Otherwise it is the mean, over exactly those
  applications, of \<open>responseDate - appliedDate\<close> in days, computed in doubles (each
  difference, each quotient and each partial sum rounded to a double) and then rounded to
  one decimal place. An application without \<open>appliedDate\<close> can be removed from the store
  without changing the metric, whether it has a \<open>responseDate\<close> or not.
\<close>

theorem averageResponseTime_rounded_mean:
  "averageResponseTime (metrics (getAnalytics utc y m start s u)) =
     (let both = filter (bothDates u start) (applicationDocs s);
          days = map (\<lambda>a. double (double (of_int (the (responseDate a) - the (appliedDate a)))
                                  / of_int msPerDay)) both
      in if both = [] then 0
         else toFixed1 (double (foldl (\<lambda>acc t. double (acc + t)) 0 days
                                / of_nat (length both))))
   \<and> (appliedDate a = None \<longrightarrow>
        averageResponseTime
          (metrics (getAnalytics utc y m start (s\<lparr>applicationDocs := xs @ a # ys\<rparr>) u))
        = averageResponseTime
            (metrics (getAnalytics utc y m start (s\<lparr>applicationDocs := xs @ ys\<rparr>) u)))"
proof -
  have mean: "averageResponseTime (metrics (getAnalytics utc y m start s' u)) =
     (let both = filter (bothDates u start) (applicationDocs s');
          days = map (\<lambda>a. double (double (of_int (the (responseDate a) - the (appliedDate a)))
                                  / of_int msPerDay)) both
      in if both = [] then 0
         else toFixed1 (double (foldl (\<lambda>acc t. double (acc + t)) 0 days
                                / of_nat (length both))))" for s'
    by (simp add: getAnalytics_def calculateAverageResponseTime_def
        responseTimes_findApplications Let_def)
  have "filter (bothDates u start) (xs @ a # ys) = filter (bothDates u start) (xs @ ys)"
    if "appliedDate a = None"
    using that by (simp add: bothDates_def)
  then show ?thesis
    by (simp add: mean)
qed

text \<open>
  C6 as stated fails by the rounding: for one application answered after 25 hours the mean
  is \<open>25/24\<close> days and the metric is \<open>1.0\<close>. And the rounding is that of the double: after
  8.4 hours the mean is \<open>0.35\<close>, whose nearest decimal with one digit is \<open>0.4\<close>, and the
  metric is \<open>0.3\<close>.
\<close>

theorem averageResponseTime_counterexample:
  "map (\<lambda>app. (appliedDate (fst app), responseDate (fst app)))
       (findApplications responseStore ''u1'' 0)
     = [(Some 0, Some 90000000), (None, Some 50000000)]
   \<and> (of_int (90000000 - 0) / of_int msPerDay :: rat) = 25 / 24
   \<and> averageResponseTime (metrics (getAnalytics id 2024 2 0 responseStore ''u1'')) = 1
   \<and> map (\<lambda>app. (appliedDate (fst app), responseDate (fst app)))
       (findApplications fractionStore ''u1'' 0)
     = [(Some 0, Some 30240000)]
   \<and> (of_int (30240000 - 0) / of_int msPerDay :: rat) = 7 / 20
   \<and> toFixed1 (7 / 20) = 2 / 5
   \<and> averageResponseTime (metrics (getAnalytics id 2024 2 0 fractionStore ''u1'')) = 3 / 10"
proof -
  have 1: "map (\<lambda>app. (appliedDate (fst app), responseDate (fst app)))
       (findApplications responseStore ''u1'' 0)
     = [(Some 0, Some 90000000), (None, Some 50000000)]"
    by (simp add: findApplications_def responseStore_def populate_def exampleApplication_def)
  have 2: "(of_int (90000000 - 0) / of_int msPerDay :: rat) = 25 / 24"
    by (simp add: msPerDay_def)
  have 3: "averageResponseTime (metrics (getAnalytics id 2024 2 0 responseStore ''u1'')) = 1"
    by (simp add: getAnalytics_averageResponseTime findApplications_def responseStore_def
        populate_def exampleApplication_def calculateAverageResponseTime_def responseTimes_def
        msPerDay_def toFixed1_def double_eval)
  have 4: "map (\<lambda>app. (appliedDate (fst app), responseDate (fst app)))
       (findApplications fractionStore ''u1'' 0)
     = [(Some 0, Some 30240000)]"
    by (simp add: findApplications_def fractionStore_def populate_def exampleApplication_def)
  have 5: "(of_int (30240000 - 0) / of_int msPerDay :: rat) = 7 / 20"
    by (simp add: msPerDay_def)
  have 6: "toFixed1 (7 / 20) = 2 / 5"
    by (simp add: toFixed1_def floor_divide_numeral_rat)
  have 7: "averageResponseTime (metrics (getAnalytics id 2024 2 0 fractionStore ''u1'')) = 3 / 10"
    by (simp add: getAnalytics_averageResponseTime findApplications_def fractionStore_def
        populate_def exampleApplication_def calculateAverageResponseTime_def responseTimes_def
        msPerDay_def toFixed1_def double_eval)
  from 1 2 3 4 5 6 7 show ?thesis by blast
qed

theorem averageResponseTime_rounded_mean_witness:
  "averageResponseTime (metrics (getAnalytics id 2024 2 0 fortyHourStore ''u1'')) = 17 / 10
   \<and> averageResponseTime (metrics (getAnalytics id 2024 2 0 responseStore ''u1''))
     = averageResponseTime (metrics (getAnalytics id 2024 2 0
        (responseStore\<lparr>applicationDocs :=
           [exampleApplication\<lparr>status := ''offer'', appliedDate := Some 0,
                                responseDate := Some 90000000\<rparr>] @ []\<rparr>) ''u1''))"
proof -
  let ?a1 = "exampleApplication\<lparr>status := ''offer'', appliedDate := Some 0,
                                responseDate := Some 90000000\<rparr>"
  let ?a2 = "exampleApplication\<lparr>app_id := ''a2'', status := ''rejected'',
                             responseDate := Some 50000000\<rparr>"
  let ?b = "exampleApplication\<lparr>status := ''offer'', appliedDate := Some 0,
                               responseDate := Some 144000000\<rparr>"
  have none: "appliedDate ?a2 = None" by (simp add: exampleApplication_def)
  have docs: "responseStore\<lparr>applicationDocs := [?a1] @ ?a2 # []\<rparr> = responseStore"
    by (simp add: responseStore_def)
  have both: "filter (bothDates ''u1'' 0) (applicationDocs fortyHourStore) = [?b]"
    by (simp add: bothDates_def fortyHourStore_def exampleApplication_def)
  have 1: "averageResponseTime (metrics (getAnalytics id 2024 2 0 fortyHourStore ''u1''))
      = 17 / 10"
    using averageResponseTime_rounded_mean [of id 2024 2 0 fortyHourStore "''u1''"]
    by (simp add: both exampleApplication_def msPerDay_def toFixed1_def double_eval)
  have 2: "averageResponseTime (metrics (getAnalytics id 2024 2 0
        (responseStore\<lparr>applicationDocs := [?a1] @ ?a2 # []\<rparr>) ''u1''))
     = averageResponseTime (metrics (getAnalytics id 2024 2 0
        (responseStore\<lparr>applicationDocs := [?a1] @ []\<rparr>) ''u1''))"
    using averageResponseTime_rounded_mean
      [of id 2024 2 0 responseStore "''u1''" ?a2 "[?a1]" "[]"] none
    by blast
  from 1 2 show ?thesis unfolding docs by simp
qed

end
